theory Spec2Isabelle
  imports Complex_Main
begin

section \<open>Shape descriptors of pybinding (\<^verbatim>\<open>pybinding/shape.py\<close>)\<close>

text \<open>
  The module builds shape descriptors: a polygon given by its vertices, and two parameter
  tuples (primitive cell, translational symmetry) handed to the native engine \<^verbatim>\<open>_cpp\<close>.

  Conventions of the embedding.
  \<^item> Where the code tells values apart by their Python type (\<^verbatim>\<open>is True\<close>, \<^verbatim>\<open>is False\<close>,
    truthiness, \<^verbatim>\<open>None\<close>), an argument is a \<open>pyval\<close>.
  \<^item> A coordinate, a radius or an angle is a Python float, or an integer that is a
    binary64 value (every integer up to \<open>2\<^sup>5\<^sup>3\<close> in magnitude is one), and is modelled by
    the real number it denotes. A signed zero is the real \<open>0\<close>. Halving and negating
    a binary64 value are exact (but for the smallest subnormal numbers), so
    \<^verbatim>\<open>rectangle\<close> computes with the reals.
  \<^item> The floating-point arithmetic of \<^verbatim>\<open>regular_polygon\<close> is a parameter, a record
    \<open>float_arith\<close> of the operations \<^verbatim>\<open>+\<close>, \<^verbatim>\<open>*\<close>, \<^verbatim>\<open>/\<close>, \<^verbatim>\<open>math.sin\<close>, \<^verbatim>\<open>math.cos\<close> and the
    constant \<^verbatim>\<open>math.pi\<close>. Python's arithmetic is the instance \<open>binary64_arith\<close>: each
    operation rounds the exact result to the nearest binary64 value, ties to even, and
    \<^verbatim>\<open>math.pi\<close> is \<open>pi\<close> rounded; the sine and the cosine of the platform's C library
    stay parameters of it. Overflow of binary64 is not modelled: for a finite angle and
    sines and cosines within \<open>[-1, 1]\<close> none of these operations overflows. The instance
    \<open>exact_arith\<close> computes with the reals.
  \<^item> The narrowing \<^verbatim>\<open>np.array(..., dtype=np.float32)\<close>, which the setter of
    \<^verbatim>\<open>Polygon.vertices\<close> writes out, is modelled explicitly: \<open>np_float32\<close> rounds a real to
    the nearest binary32 value, ties to even, with gradual underflow and overflow to
    infinity.
  \<^item> An exception is a value of type \<open>error\<close>; a function that may raise returns
    \<open>error + 'a\<close>. The setter mutates an object, so it returns the object after the call
    together with the exception, if any.
\<close>

subsection \<open>Python values and exceptions\<close>

datatype pyval = PyNone | PyBool bool | PyInt int | PyFloat real

text \<open>Truth value testing (\<^verbatim>\<open>if v\<close>, \<^verbatim>\<open>v or w\<close>).\<close>

fun py_truthy :: "pyval \<Rightarrow> bool" where
  "py_truthy PyNone = False"
| "py_truthy (PyBool b) = b"
| "py_truthy (PyInt n) = (n \<noteq> 0)"
| "py_truthy (PyFloat r) = (r \<noteq> 0)"

definition py_or :: "pyval \<Rightarrow> pyval \<Rightarrow> pyval" where
  "py_or v w = (if py_truthy v then v else w)"

datatype error = ValueError string

subsection \<open>32-bit floats\<close>

text \<open>
  A binary32 value: a finite one, given by the real it denotes, or an infinity
  (\<open>F32_inf True\<close> is the negative one).
\<close>

datatype float32 = F32 real | F32_inf bool

definition round_half_even :: "real \<Rightarrow> int" where
  "round_half_even r =
     (let f = \<lfloor>r\<rfloor>; d = r - of_int f
      in if d < 1 / 2 then f
         else if 1 / 2 < d then f + 1
         else if even f then f else f + 1)"

text \<open>
  The exponent of the binade of \<open>v\<close>, not below that of the smallest normal number, and
  the distance of neighbouring binary32 values there (24 significant bits).
\<close>

definition f32_exponent :: "real \<Rightarrow> int" where
  "f32_exponent v = max \<lfloor>log 2 \<bar>v\<bar>\<rfloor> (- 126)"

definition f32_ulp :: "real \<Rightarrow> real" where
  "f32_ulp v = 2 powr of_int (f32_exponent v - 23)"

definition np_float32 :: "real \<Rightarrow> float32" where
  "np_float32 v =
     (if v = 0 then F32 0
      else let r = of_int (round_half_even (v / f32_ulp v)) * f32_ulp v
           in if 2 ^ 128 \<le> \<bar>r\<bar> then F32_inf (v < 0) else F32 r)"

text \<open>
  A Python float is a binary64 value (53 significant bits, smallest normal exponent
  \<open>-1022\<close>): \<open>py_float\<close> rounds a real to the nearest one, ties to even.
\<close>

definition f64_exponent :: "real \<Rightarrow> int" where
  "f64_exponent v = max \<lfloor>log 2 \<bar>v\<bar>\<rfloor> (- 1022)"

definition f64_ulp :: "real \<Rightarrow> real" where
  "f64_ulp v = 2 powr of_int (f64_exponent v - 52)"

definition py_float :: "real \<Rightarrow> real" where
  "py_float v =
     (if v = 0 then 0 else of_int (round_half_even (v / f64_ulp v)) * f64_ulp v)"

record float_arith =
  f_add :: "real \<Rightarrow> real \<Rightarrow> real"
  f_mul :: "real \<Rightarrow> real \<Rightarrow> real"
  f_div :: "real \<Rightarrow> real \<Rightarrow> real"
  f_sin :: "real \<Rightarrow> real"
  f_cos :: "real \<Rightarrow> real"
  f_pi :: real

definition binary64_arith :: "(real \<Rightarrow> real) \<Rightarrow> (real \<Rightarrow> real) \<Rightarrow> float_arith" where
  "binary64_arith math_sin math_cos =
     \<lparr>f_add = (\<lambda>a b. py_float (a + b)),
      f_mul = (\<lambda>a b. py_float (a * b)),
      f_div = (\<lambda>a b. py_float (a / b)),
      f_sin = math_sin,
      f_cos = math_cos,
      f_pi = py_float pi\<rparr>"

text \<open>
  The C library with a correctly rounded sine and cosine. (The values that the
  evaluations below depend on, \<open>sin 0 = 0\<close>, \<open>cos 0 = 1\<close> and a sine of at least \<open>1/2\<close>
  between \<open>1\<close> and \<open>2\<close>, are those of every C library.)
\<close>

definition binary64_rounded :: float_arith where
  "binary64_rounded = binary64_arith (\<lambda>a. py_float (sin a)) (\<lambda>a. py_float (cos a))"

definition exact_arith :: float_arith where
  "exact_arith =
     \<lparr>f_add = (+), f_mul = (*), f_div = (/), f_sin = sin, f_cos = cos, f_pi = pi\<rparr>"

subsection \<open>Polygon\<close>

text \<open>
  The native base class \<^verbatim>\<open>_cpp.Polygon\<close> is not part of the Python sources; of it the
  code uses the two attributes \<^verbatim>\<open>x\<close> and \<^verbatim>\<open>y\<close>, which hold the coordinate arrays.
\<close>

record polygon =
  self_x :: "float32 list"
  self_y :: "float32 list"

text \<open>
  Modelled from the spec: \<^verbatim>\<open>_cpp.Polygon()\<close>, the base initialiser called by
  \<^verbatim>\<open>super().__init__()\<close>, is absent from the sources; the spec describes a native polygon
  handle storing x/y arrays. The fresh handle is taken to store two empty arrays; the
  constructor overwrites both before it returns.
\<close>

definition cpp_Polygon :: polygon where
  "cpp_Polygon = \<lparr>self_x = [], self_y = []\<rparr>"

text \<open>
  \<^verbatim>\<open>zip(*vertices)\<close>: the tuples of the first, second, ... components of the points, up to
  the length of the shortest point; nothing for no points.
\<close>

definition zip_star :: "'a list list \<Rightarrow> 'a list list" where
  "zip_star ps =
     (if ps = [] then []
      else map (\<lambda>i. map (\<lambda>p. p ! i) ps) [0..<min_list (map length ps)])"

text \<open>The unpacking \<^verbatim>\<open>x, y = ...\<close>, which raises \<^verbatim>\<open>ValueError\<close> unless there are two items.\<close>

fun unpack2 :: "'a list \<Rightarrow> error + ('a \<times> 'a)" where
  "unpack2 [] = Inl (ValueError ''not enough values to unpack (expected 2, got 0)'')"
| "unpack2 [a] = Inl (ValueError ''not enough values to unpack (expected 2, got 1)'')"
| "unpack2 [a, b] = Inr (a, b)"
| "unpack2 (a # b # c # ds) = Inl (ValueError ''too many values to unpack (expected 2)'')"

text \<open>The property \<^verbatim>\<open>vertices\<close>: getter and setter.\<close>

definition vertices :: "polygon \<Rightarrow> (float32 \<times> float32) list" where
  "vertices self = zip (self_x self) (self_y self)"

definition vertices_setter :: "polygon \<Rightarrow> real list list \<Rightarrow> polygon \<times> error option" where
  "vertices_setter self vs =
     (case unpack2 (zip_star vs) of
        Inl e \<Rightarrow> (self, Some e)
      | Inr (x, y) \<Rightarrow>
          if length x < 3
          then (self, Some (ValueError ''A polygon must have at least 3 sides''))
          else let self1 = self\<lparr>self_x := map np_float32 x\<rparr>;
                   self2 = self1\<lparr>self_y := map np_float32 y\<rparr>
               in (self2, None))"

text \<open>\<^verbatim>\<open>Polygon(vertices)\<close>: the object, unless the setter raised.\<close>

definition Polygon :: "real list list \<Rightarrow> error + polygon" where
  "Polygon vs =
     (case vertices_setter cpp_Polygon vs of
        (self, None) \<Rightarrow> Inr self
      | (self, Some e) \<Rightarrow> Inl e)"

subsection \<open>Factory functions\<close>

text \<open>
  Modelled from the spec: \<^verbatim>\<open>_cpp.Primitive\<close> and \<^verbatim>\<open>_cpp.Translational\<close>, the native
  descriptor types, are absent from the sources; the spec gives their constructors as taking
  three lengths and the nanometers flag, and three encoded numbers. A descriptor is the
  record of the arguments it was constructed from.
\<close>

datatype primitive_descr = cpp_Primitive "pyval \<times> pyval \<times> pyval" bool

datatype translational_descr = cpp_Translational "pyval \<times> pyval \<times> pyval"

text \<open>\<^verbatim>\<open>primitive(v1=None, v2=None, v3=None, nanometers=False)\<close>\<close>

definition primitive :: "pyval \<Rightarrow> pyval \<Rightarrow> pyval \<Rightarrow> bool \<Rightarrow> primitive_descr" where
  "primitive v1 v2 v3 nanometers =
     (let lengths = (py_or v1 (PyInt 0), py_or v2 (PyInt 0), py_or v3 (PyInt 0))
      in cpp_Primitive lengths nanometers)"

text \<open>
  \<^verbatim>\<open>rectangle(x, y=None)\<close>: \<open>x\<close> is a number, \<open>y\<close> a number or \<^verbatim>\<open>None\<close>; \<^verbatim>\<open>y if y else x\<close>
  takes \<open>x\<close> when \<open>y\<close> is \<^verbatim>\<open>None\<close> or zero.
\<close>

definition rectangle :: "real \<Rightarrow> real option \<Rightarrow> error + polygon" where
  "rectangle x y =
     (let y1 = (case y of None \<Rightarrow> x | Some v \<Rightarrow> if v \<noteq> 0 then v else x);
          x0 = x / 2;
          y0 = y1 / 2
      in Polygon [[x0, y0], [x0, - y0], [- x0, - y0], [- x0, y0]])"

text \<open>
  \<^verbatim>\<open>regular_polygon(num_sides, radius, angle=0)\<close>: \<open>num_sides\<close> is an integer
  (\<^verbatim>\<open>range\<close> accepts nothing else), and \<^verbatim>\<open>range(num_sides)\<close> is empty when it is not
  positive. In \<^verbatim>\<open>angle + 2 * n * pi / num_sides\<close> the product \<^verbatim>\<open>2 * n\<close> is one of integers;
  it is multiplied by \<^verbatim>\<open>pi\<close>, the product divided by \<^verbatim>\<open>num_sides\<close> and the quotient added
  to \<^verbatim>\<open>angle\<close>, all three in floating point. The two list comprehensions are
  \<open>regular_polygon_angles\<close> and \<open>regular_polygon_points\<close>.
\<close>

definition regular_polygon_angles :: "float_arith \<Rightarrow> int \<Rightarrow> real \<Rightarrow> real list" where
  "regular_polygon_angles fa num_sides angle =
     map (\<lambda>n. f_add fa angle (f_div fa (f_mul fa (of_int (2 * n)) (f_pi fa)) (of_int num_sides)))
       [0..num_sides - 1]"

definition regular_polygon_points :: "float_arith \<Rightarrow> int \<Rightarrow> real \<Rightarrow> real \<Rightarrow> real list list" where
  "regular_polygon_points fa num_sides radius angle =
     map (\<lambda>a. [f_mul fa radius (f_sin fa a), f_mul fa radius (f_cos fa a)])
       (regular_polygon_angles fa num_sides angle)"

definition regular_polygon :: "float_arith \<Rightarrow> int \<Rightarrow> real \<Rightarrow> real \<Rightarrow> error + polygon" where
  "regular_polygon fa num_sides radius angle =
     Polygon (regular_polygon_points fa num_sides radius angle)"

text \<open>\<^verbatim>\<open>translational_symmetry(a1=True, a2=True, a3=True)\<close> and its local function.\<close>

fun to_cpp_params :: "pyval \<Rightarrow> pyval" where
  "to_cpp_params (PyBool False) = PyInt (- 1)"
| "to_cpp_params (PyBool True) = PyInt 0"
| "to_cpp_params v = v"

definition translational_symmetry :: "pyval \<Rightarrow> pyval \<Rightarrow> pyval \<Rightarrow> translational_descr" where
  "translational_symmetry a1 a2 a3 =
     (let lengths = (to_cpp_params a1, to_cpp_params a2, to_cpp_params a3)
      in cpp_Translational lengths)"

section \<open>Properties\<close>

subsection \<open>The setter and the constructor of Polygon\<close>

lemma min_list_all2: "ps \<noteq> [] \<Longrightarrow> \<forall>p\<in>set ps. length p = 2 \<Longrightarrow> min_list (map length ps) = 2"
proof (induction ps)
  case Nil
  then show ?case by simp
next
  case (Cons p ps)
  show ?case
  proof (cases ps)
    case Nil
    with Cons.prems show ?thesis by simp
  next
    case (Cons q qs)
    with Cons.IH Cons.prems have "min_list (map length ps) = 2" by simp
    with Cons Cons.prems show ?thesis by simp
  qed
qed

lemma length_zip_star_elem: "xs \<in> set (zip_star ps) \<Longrightarrow> length xs = length ps"
  by (auto simp: zip_star_def split: if_splits)

lemma upt_0_2: "[0..<2] = [0, Suc 0]"
  by (simp add: numeral_2_eq_2)

lemma zip_star_2d:
  assumes "ps \<noteq> []" "\<forall>p\<in>set ps. length p = 2"
  shows "zip_star ps = [map (\<lambda>p. p ! 0) ps, map (\<lambda>p. p ! Suc 0) ps]"
  using assms(1) by (simp add: zip_star_def min_list_all2[OF assms] upt_0_2)

lemma setter_short:
  assumes "length vs < 3"
  shows "\<exists>m. vertices_setter self vs = (self, Some (ValueError m))"
proof (cases "unpack2 (zip_star vs)")
  case (Inl e)
  then show ?thesis by (cases e) (simp add: vertices_setter_def)
next
  case (Inr xy)
  obtain x y where xy: "xy = (x, y)" by (cases xy)
  with Inr have "zip_star vs = [x, y]"
    by (cases "zip_star vs" rule: unpack2.cases) simp_all
  then have "x \<in> set (zip_star vs)" by simp
  then have "length x = length vs" by (rule length_zip_star_elem)
  with assms Inr xy show ?thesis by (simp add: vertices_setter_def)
qed

lemma setter_ok:
  assumes "3 \<le> length vs" "\<forall>p\<in>set vs. length p = 2"
  shows "vertices_setter self vs =
     (self\<lparr>self_x := map (\<lambda>p. np_float32 (p ! 0)) vs, self_y := map (\<lambda>p. np_float32 (p ! Suc 0)) vs\<rparr>, None)"
proof -
  from assms have "vs \<noteq> []" by auto
  from zip_star_2d[OF this assms(2)] assms(1) show ?thesis
    by (simp add: vertices_setter_def comp_def)
qed

lemma zip_map_map_same: "zip (map f xs) (map g xs) = map (\<lambda>x. (f x, g x)) xs"
  by (induction xs) simp_all

lemma Polygon_ok:
  assumes "3 \<le> length vs" "\<forall>p\<in>set vs. length p = 2"
  shows "Polygon vs = Inr \<lparr>self_x = map (\<lambda>p. np_float32 (p ! 0)) vs, self_y = map (\<lambda>p. np_float32 (p ! Suc 0)) vs\<rparr>"
  using setter_ok[OF assms, of cpp_Polygon]
  by (simp add: Polygon_def cpp_Polygon_def)

lemma Polygon_short:
  assumes "length vs < 3"
  shows "\<exists>m. Polygon vs = Inl (ValueError m)"
proof -
  from setter_short[OF assms, of cpp_Polygon] obtain m
    where "vertices_setter cpp_Polygon vs = (cpp_Polygon, Some (ValueError m))" ..
  then show ?thesis by (simp add: Polygon_def)
qed

lemma Polygon_empty: "Polygon [] = Inl (ValueError ''not enough values to unpack (expected 2, got 0)'')"
  by (simp add: Polygon_def vertices_setter_def zip_star_def)

lemma Polygon_short_2d:
  assumes "vs \<noteq> []" "length vs < 3" "\<forall>p\<in>set vs. length p = 2"
  shows "Polygon vs = Inl (ValueError ''A polygon must have at least 3 sides'')"
  using assms(2) by (simp add: Polygon_def vertices_setter_def zip_star_2d[OF assms(1,3)])

text \<open>
  Claim C2. A sequence of fewer than three points is rejected: the constructor returns no
  polygon but raises \<^verbatim>\<open>ValueError\<close>, and so does an assignment to \<^verbatim>\<open>vertices\<close> of any
  polygon. (For no points at all the exception comes from the unpacking of
  \<^verbatim>\<open>zip(*vertices)\<close>, otherwise from the length check or, for points that are not pairs,
  again from the unpacking; all of them are \<^verbatim>\<open>ValueError\<close>.)
\<close>

theorem Polygon_fewer_than_3_raises:
  assumes "length vs < 3"
  shows "(\<exists>m. Polygon vs = Inl (ValueError m)) \<and>
         (\<exists>m. snd (vertices_setter self vs) = Some (ValueError m))"
proof -
  from setter_short[OF assms, of self] obtain m
    where "vertices_setter self vs = (self, Some (ValueError m))" ..
  then have "\<exists>m. snd (vertices_setter self vs) = Some (ValueError m)" by simp
  with Polygon_short[OF assms] show ?thesis by simp
qed

theorem Polygon_fewer_than_3_raises_witness:
  "length [[1, 2], [3, 4 :: real]] < 3 \<and>
   (\<exists>m. Polygon [[1, 2], [3, 4]] = Inl (ValueError m)) \<and>
   (\<exists>m. snd (vertices_setter cpp_Polygon [[1, 2], [3, 4]]) = Some (ValueError m))"
  using Polygon_fewer_than_3_raises [of "[[1, 2], [3, 4]]" cpp_Polygon] by simp

text \<open>
  Claim C9. An assignment to \<^verbatim>\<open>vertices\<close> of fewer than three points raises before
  either array is written: the object after the failed call is the object before it, with
  the same \<^verbatim>\<open>x\<close>, the same \<^verbatim>\<open>y\<close> and the same \<^verbatim>\<open>vertices\<close>.
\<close>

theorem vertices_setter_failure_keeps_state:
  assumes "length vs < 3"
  shows "snd (vertices_setter self vs) \<noteq> None \<and>
         fst (vertices_setter self vs) = self \<and>
         self_x (fst (vertices_setter self vs)) = self_x self \<and>
         self_y (fst (vertices_setter self vs)) = self_y self \<and>
         vertices (fst (vertices_setter self vs)) = vertices self"
proof -
  from setter_short[OF assms, of self] obtain m
    where "vertices_setter self vs = (self, Some (ValueError m))" ..
  then show ?thesis by simp
qed

theorem vertices_setter_failure_keeps_state_witness:
  "length [[5, 5 :: real]] < 3 \<and>
   snd (vertices_setter \<lparr>self_x = [F32 0, F32 1, F32 0], self_y = [F32 0, F32 0, F32 1]\<rparr> [[5, 5]]) \<noteq> None \<and>
   vertices (fst (vertices_setter \<lparr>self_x = [F32 0, F32 1, F32 0], self_y = [F32 0, F32 0, F32 1]\<rparr> [[5, 5]]))
     = [(F32 0, F32 0), (F32 1, F32 0), (F32 0, F32 1)]"
  using vertices_setter_failure_keeps_state
    [of "[[5, 5]]" "\<lparr>self_x = [F32 0, F32 1, F32 0], self_y = [F32 0, F32 0, F32 1]\<rparr>"]
  by (simp add: vertices_def)

subsection \<open>Parameter tuples\<close>

text \<open>
  Claim C3. Each of the three arguments of \<^verbatim>\<open>translational_symmetry\<close> is encoded on its
  own: \<^verbatim>\<open>False\<close> becomes \<open>-1\<close>, \<^verbatim>\<open>True\<close> becomes \<open>0\<close>, every other value is passed
  on as it is; \<^verbatim>\<open>translational_symmetry(a1=False, a2=True, a3=2.5)\<close> gives
  \<open>(-1, 0, 2.5)\<close>.
\<close>

theorem translational_symmetry_encoding:
  "translational_symmetry a1 a2 a3 =
     cpp_Translational (to_cpp_params a1, to_cpp_params a2, to_cpp_params a3) \<and>
   to_cpp_params (PyBool False) = PyInt (- 1) \<and>
   to_cpp_params (PyBool True) = PyInt 0 \<and>
   ((\<forall>b. v \<noteq> PyBool b) \<longrightarrow> to_cpp_params v = v) \<and>
   translational_symmetry (PyBool False) (PyBool True) (PyFloat (5 / 2)) =
     cpp_Translational (PyInt (- 1), PyInt 0, PyFloat (5 / 2))"
  by (cases v) (auto simp: translational_symmetry_def)

theorem translational_symmetry_encoding_witness:
  "(\<forall>b. PyFloat (5 / 2) \<noteq> PyBool b) \<and> to_cpp_params (PyFloat (5 / 2)) = PyFloat (5 / 2) \<and>
   translational_symmetry (PyBool False) (PyBool True) (PyFloat (5 / 2)) =
     cpp_Translational (PyInt (- 1), PyInt 0, PyFloat (5 / 2))"
  using translational_symmetry_encoding
    [of "PyBool False" "PyBool True" "PyFloat (5 / 2)" "PyFloat (5 / 2)"]
  by simp

text \<open>
  Claim C10. \<^verbatim>\<open>translational_symmetry\<close> encodes each argument on its own, and only the two
  boolean objects are encoded; every other argument, a number of any size and sign, is
  handed to the descriptor as it is. The numbers \<open>1\<close> and \<open>0\<close> are thereby told apart from
  \<^verbatim>\<open>True\<close> and \<^verbatim>\<open>False\<close>: \<^verbatim>\<open>translational_symmetry(1, 1, 1)\<close> gives \<open>(1, 1, 1)\<close>, not the
  triple of \<^verbatim>\<open>translational_symmetry(True, True, True)\<close>. But
  \<^verbatim>\<open>translational_symmetry(0, 0, 0)\<close> gives the triple \<open>(0, 0, 0)\<close> of
  \<^verbatim>\<open>translational_symmetry(True, True, True)\<close>, and the length \<open>-1\<close> gives the encoding of
  \<^verbatim>\<open>False\<close>: neither the encoding of one argument nor the function is injective.
\<close>

theorem translational_symmetry_not_injective:
  "translational_symmetry a1 a2 a3 =
     cpp_Translational (to_cpp_params a1, to_cpp_params a2, to_cpp_params a3) \<and>
   ((\<forall>b. a1 \<noteq> PyBool b) \<and> (\<forall>b. a2 \<noteq> PyBool b) \<and> (\<forall>b. a3 \<noteq> PyBool b) \<longrightarrow>
      translational_symmetry a1 a2 a3 = cpp_Translational (a1, a2, a3)) \<and>
   translational_symmetry (PyInt n) (PyFloat r) (PyInt m) =
     cpp_Translational (PyInt n, PyFloat r, PyInt m) \<and>
   to_cpp_params (PyInt n) = PyInt n \<and>
   to_cpp_params (PyFloat r) = PyFloat r \<and>
   to_cpp_params (PyInt 1) \<noteq> to_cpp_params (PyBool True) \<and>
   to_cpp_params (PyInt 0) \<noteq> to_cpp_params (PyBool False) \<and>
   translational_symmetry (PyInt 1) (PyInt 1) (PyInt 1) = cpp_Translational (PyInt 1, PyInt 1, PyInt 1) \<and>
   translational_symmetry (PyInt 1) (PyInt 1) (PyInt 1) \<noteq>
     translational_symmetry (PyBool True) (PyBool True) (PyBool True) \<and>
   translational_symmetry (PyInt 0) (PyInt 0) (PyInt 0) = cpp_Translational (PyInt 0, PyInt 0, PyInt 0) \<and>
   translational_symmetry (PyInt 0) (PyInt 0) (PyInt 0) =
     translational_symmetry (PyBool True) (PyBool True) (PyBool True) \<and>
   to_cpp_params (PyInt (- 1)) = to_cpp_params (PyBool False) \<and>
   translational_symmetry (PyInt (- 1)) (PyInt (- 1)) (PyInt (- 1)) =
     translational_symmetry (PyBool False) (PyBool False) (PyBool False) \<and>
   \<not> inj to_cpp_params \<and>
   \<not> inj (\<lambda>(a1, a2, a3). translational_symmetry a1 a2 a3)"
proof -
  have a: "\<not> inj to_cpp_params"
  proof
    assume "inj to_cpp_params"
    from injD [OF this, of "PyInt 0" "PyBool True"] show False by simp
  qed
  have b: "\<not> inj (\<lambda>(a1, a2, a3). translational_symmetry a1 a2 a3)"
  proof
    assume "inj (\<lambda>(a1, a2, a3). translational_symmetry a1 a2 a3)"
    from injD [OF this, of "(PyInt 0, PyInt 0, PyInt 0)" "(PyBool True, PyBool True, PyBool True)"]
    show False by (simp add: translational_symmetry_def)
  qed
  have c: "(\<forall>b. v \<noteq> PyBool b) \<longrightarrow> to_cpp_params v = v" for v
    by (cases v) auto
  from c [of a1] c [of a2] c [of a3] a b show ?thesis
    by (simp add: translational_symmetry_def)
qed

theorem translational_symmetry_not_injective_witness:
  "(\<forall>b. PyInt 1 \<noteq> PyBool b) \<and> (\<forall>b. PyFloat (- 1) \<noteq> PyBool b) \<and> (\<forall>b. PyInt 0 \<noteq> PyBool b) \<and>
   translational_symmetry (PyInt 1) (PyFloat (- 1)) (PyInt 0) =
     cpp_Translational (PyInt 1, PyFloat (- 1), PyInt 0) \<and>
   translational_symmetry (PyInt 0) (PyInt 0) (PyInt 0) =
     translational_symmetry (PyBool True) (PyBool True) (PyBool True) \<and>
   (PyInt 0, PyInt 0, PyInt 0) \<noteq> (PyBool True, PyBool True, PyBool True)"
  using translational_symmetry_not_injective [of "PyInt 1" "PyFloat (- 1)" "PyInt 0" 1 "- 1" 0]
  by auto

text \<open>
  Claim C7. \<^verbatim>\<open>primitive\<close> takes length \<open>0\<close> for a direction that is \<^verbatim>\<open>None\<close> (the
  default), passes a non-zero length on, and hands the one \<^verbatim>\<open>nanometers\<close> flag to the
  descriptor next to the three lengths; \<^verbatim>\<open>primitive()\<close> has the lengths \<open>(0, 0, 0)\<close>.
\<close>

theorem primitive_defaults:
  "primitive v1 v2 v3 nanometers =
     cpp_Primitive (py_or v1 (PyInt 0), py_or v2 (PyInt 0), py_or v3 (PyInt 0)) nanometers \<and>
   py_or PyNone (PyInt 0) = PyInt 0 \<and>
   (py_truthy v1 \<longrightarrow> py_or v1 (PyInt 0) = v1) \<and>
   primitive PyNone PyNone PyNone nanometers = cpp_Primitive (PyInt 0, PyInt 0, PyInt 0) nanometers \<and>
   primitive PyNone PyNone PyNone False = cpp_Primitive (PyInt 0, PyInt 0, PyInt 0) False"
  by (simp add: primitive_def py_or_def)

theorem primitive_defaults_witness:
  "py_truthy (PyInt 3) \<and>
   primitive (PyInt 3) PyNone PyNone True = cpp_Primitive (PyInt 3, PyInt 0, PyInt 0) True"
  using primitive_defaults [of "PyInt 3" PyNone PyNone True]
  by simp

subsection \<open>Rounding to 32-bit floats\<close>

lemma f32_exponent_eqI:
  assumes "- 126 \<le> e" "2 powr of_int e \<le> \<bar>v\<bar>" "\<bar>v\<bar> < 2 powr of_int (e + 1)"
  shows "f32_exponent v = e"
proof -
  have "(0::real) < 2 powr of_int e" by simp
  with assms(2) have "0 < \<bar>v\<bar>" by linarith
  then have "\<lfloor>log 2 \<bar>v\<bar>\<rfloor> = e"
    using assms(2,3) by (simp add: floor_log_eq_powr_iff)
  with assms(1) show ?thesis by (simp add: f32_exponent_def)
qed

lemma round_half_even_of_int: "round_half_even (of_int n) = n"
  by (simp add: round_half_even_def)

lemma np_float32_exact:
  assumes e: "- 126 \<le> e" "2 powr of_int e \<le> \<bar>v\<bar>" "\<bar>v\<bar> < 2 powr of_int (e + 1)"
    and m: "v = of_int m * 2 powr of_int (e - 23)"
    and fin: "\<bar>v\<bar> < 2 ^ 128"
  shows "np_float32 v = F32 v"
proof -
  have "(0::real) < 2 powr of_int e" by simp
  with e(2) have nz: "v \<noteq> 0" by auto
  have u: "f32_ulp v = 2 powr of_int (e - 23)"
    by (simp only: f32_ulp_def f32_exponent_eqI [OF e])
  have upos: "(0::real) < 2 powr of_int (e - 23)" by simp
  have "v / f32_ulp v = of_int m"
    unfolding u using m upos by simp
  then have "round_half_even (v / f32_ulp v) = m"
    by (simp only: round_half_even_of_int)
  then have "of_int (round_half_even (v / f32_ulp v)) * f32_ulp v = v"
    using m u by simp
  with nz fin show ?thesis by (simp add: np_float32_def Let_def)
qed

lemma np_float32_0: "np_float32 0 = F32 0"
  by (simp add: np_float32_def)

lemma np_float32_1: "np_float32 1 = F32 1"
  by (rule np_float32_exact [where e = 0 and m = "2 ^ 23"]) (simp_all add: powr_minus_divide)

lemma np_float32_m1: "np_float32 (- 1) = F32 (- 1)"
  by (rule np_float32_exact [where e = 0 and m = "- (2 ^ 23)"]) (simp_all add: powr_minus_divide)

lemma np_float32_2: "np_float32 2 = F32 2"
  by (rule np_float32_exact [where e = 1 and m = "2 ^ 23"]) (simp_all add: powr_minus_divide)

lemma np_float32_m2: "np_float32 (- 2) = F32 (- 2)"
  by (rule np_float32_exact [where e = 1 and m = "- (2 ^ 23)"]) (simp_all add: powr_minus_divide)

lemma np_float32_16777217: "np_float32 16777217 = F32 16777216"
proof -
  have e: "f32_exponent 16777217 = 24"
    by (rule f32_exponent_eqI) simp_all
  have u: "f32_ulp 16777217 = 2"
    by (simp add: f32_ulp_def e)
  have fl: "\<lfloor>16777217 / 2 :: real\<rfloor> = 8388608"
    by (simp add: floor_eq_iff)
  have "round_half_even (16777217 / 2) = 8388608"
    by (simp add: round_half_even_def Let_def fl)
  then show ?thesis
    by (simp add: np_float32_def u)
qed

lemma np_float32_m16777217: "np_float32 (- 16777217) = F32 (- 16777216)"
proof -
  have e: "f32_exponent (- 16777217) = 24"
    by (rule f32_exponent_eqI) simp_all
  have u: "f32_ulp (- 16777217) = 2"
    by (simp add: f32_ulp_def e)
  have fl: "\<lfloor>- (16777217 / 2) :: real\<rfloor> = - 8388609"
    by (simp add: floor_eq_iff)
  have "round_half_even (- (16777217 / 2)) = - 8388608"
    by (simp add: round_half_even_def Let_def fl)
  then show ?thesis
    by (simp add: np_float32_def u)
qed

lemma round_half_even_minus: "round_half_even (- r) = - round_half_even r"
proof (cases "r = of_int \<lfloor>r\<rfloor>")
  case True
  then obtain k :: int where "r = of_int k" ..
  then show ?thesis
    by (simp add: round_half_even_of_int flip: of_int_minus)
next
  case False
  have lo: "of_int \<lfloor>r\<rfloor> < r" using False of_int_floor_le [of r] by linarith
  have hi: "r < of_int \<lfloor>r\<rfloor> + 1" by linarith
  have h: "real_of_int (- \<lfloor>r\<rfloor> - 1) = - real_of_int \<lfloor>r\<rfloor> - 1" by simp
  have "of_int (- \<lfloor>r\<rfloor> - 1) \<le> - r"
    unfolding h using real_of_int_floor_add_one_ge [of r] by linarith
  moreover have "- r < of_int (- \<lfloor>r\<rfloor> - 1) + 1"
    unfolding h using lo by linarith
  ultimately have fl: "\<lfloor>- r\<rfloor> = - \<lfloor>r\<rfloor> - 1" by (rule floor_unique)
  show ?thesis
    unfolding round_half_even_def Let_def fl
    using lo hi by (auto simp: algebra_simps)
qed

lemma np_float32_minus:
  assumes "np_float32 v = F32 w"
  shows "np_float32 (- v) = F32 (- w)"
proof (cases "v = 0")
  case True
  with assms show ?thesis by (simp add: np_float32_def)
next
  case False
  have u: "f32_ulp (- v) = f32_ulp v"
    by (simp add: f32_ulp_def f32_exponent_def)
  from assms False show ?thesis
    by (simp add: np_float32_def Let_def u round_half_even_minus split: if_splits)
qed

lemma vertices_Polygon:
  assumes "3 \<le> length vs" "\<forall>p\<in>set vs. length p = 2"
  shows "map_sum id vertices (Polygon vs) =
           Inr (map (\<lambda>p. (np_float32 (p ! 0), np_float32 (p ! Suc 0))) vs)"
  by (simp add: Polygon_ok [OF assms] vertices_def zip_map_map_same)

lemma vertices_rectangle:
  "map_sum id vertices (rectangle x y) =
     (let y1 = (case y of None \<Rightarrow> x | Some v \<Rightarrow> if v \<noteq> 0 then v else x)
      in Inr [(np_float32 (x / 2), np_float32 (y1 / 2)),
              (np_float32 (x / 2), np_float32 (- (y1 / 2))),
              (np_float32 (- (x / 2)), np_float32 (- (y1 / 2))),
              (np_float32 (- (x / 2)), np_float32 (y1 / 2))])"
  by (simp add: rectangle_def Let_def vertices_Polygon)

subsection \<open>Reading the vertices back\<close>

text \<open>
  Claim C1, as the code has it. For at least three points, each a pair, the constructor
  succeeds, and \<^verbatim>\<open>vertices\<close> gives as many pairs as there were points, in their order, the
  coordinates of each rounded to 32-bit floats; these are the coordinates that were given
  when all of them are 32-bit floats already.
\<close>

theorem Polygon_vertices_float32:
  assumes "3 \<le> length vs" "\<forall>p\<in>set vs. length p = 2"
  shows "\<exists>self. Polygon vs = Inr self \<and>
           length (vertices self) = length vs \<and>
           vertices self = map (\<lambda>p. (np_float32 (p ! 0), np_float32 (p ! 1))) vs \<and>
           ((\<forall>p\<in>set vs. \<forall>c\<in>set p. np_float32 c = F32 c) \<longrightarrow>
              vertices self = map (\<lambda>p. (F32 (p ! 0), F32 (p ! 1))) vs)"
proof -
  have "(\<forall>p\<in>set vs. \<forall>c\<in>set p. np_float32 c = F32 c) \<longrightarrow>
          map (\<lambda>p. (np_float32 (p ! 0), np_float32 (p ! Suc 0))) vs =
          map (\<lambda>p. (F32 (p ! 0), F32 (p ! Suc 0))) vs"
    using assms(2) by (auto simp: nth_mem)
  then show ?thesis
    by (simp add: Polygon_ok [OF assms] vertices_def zip_map_map_same)
qed

theorem Polygon_vertices_float32_witness:
  "3 \<le> length [[0, 0], [1, 0], [0, 1 :: real]] \<and>
   length [0, 0 :: real] = 2 \<and> length [1, 0 :: real] = 2 \<and> length [0, 1 :: real] = 2 \<and>
   np_float32 0 = F32 0 \<and> np_float32 1 = F32 1 \<and>
   (\<exists>self. Polygon [[0, 0], [1, 0], [0, 1]] = Inr self \<and>
      vertices self = [(F32 0, F32 0), (F32 1, F32 0), (F32 0, F32 1)])"
  using Polygon_vertices_float32 [of "[[0, 0], [1, 0], [0, 1]]"]
  by (auto simp: np_float32_0 np_float32_1)

text \<open>
  Claim C1 as stated, that the coordinates read back are the ones given, fails for the
  integer \<open>2\<^sup>2\<^sup>4 + 1\<close>, which is read back as \<open>2\<^sup>2\<^sup>4\<close>.
\<close>

theorem Polygon_vertices_roundtrip_counterexample:
  "map_sum id vertices (Polygon [[16777217, 0], [0, 0], [0, 1]]) =
     Inr [(F32 16777216, F32 0), (F32 0, F32 0), (F32 0, F32 1)] \<and>
   map_sum id vertices (Polygon [[16777217, 0], [0, 0], [0, 1]]) \<noteq>
     Inr [(F32 16777217, F32 0), (F32 0, F32 0), (F32 0, F32 1)]"
  by (simp add: vertices_Polygon np_float32_0 np_float32_1 np_float32_16777217)

text \<open>
  Claim C4, as the code has it. For every \<open>x\<close> and every \<open>y\<close> other than zero, the
  vertices of \<^verbatim>\<open>rectangle(x, y)\<close> are \<open>(x/2, y/2)\<close>, \<open>(x/2, -y/2)\<close>, \<open>(-x/2, -y/2)\<close>,
  \<open>(-x/2, y/2)\<close> in this order, each coordinate rounded to a 32-bit float, which leaves
  the four pairs as they are when \<open>x/2\<close> and \<open>y/2\<close> are 32-bit floats; and
  \<^verbatim>\<open>rectangle(4)\<close> has the vertices \<open>(2, 2)\<close>, \<open>(2, -2)\<close>, \<open>(-2, -2)\<close>, \<open>(-2, 2)\<close>.
\<close>

theorem rectangle_vertices_float32:
  "(y \<noteq> 0 \<longrightarrow>
      (\<exists>self. rectangle x (Some y) = Inr self \<and>
         vertices self =
           [(np_float32 (x / 2), np_float32 (y / 2)),
            (np_float32 (x / 2), np_float32 (- (y / 2))),
            (np_float32 (- (x / 2)), np_float32 (- (y / 2))),
            (np_float32 (- (x / 2)), np_float32 (y / 2))])) \<and>
   (y \<noteq> 0 \<and> np_float32 (x / 2) = F32 (x / 2) \<and> np_float32 (y / 2) = F32 (y / 2) \<longrightarrow>
      (\<exists>self. rectangle x (Some y) = Inr self \<and>
         vertices self =
           [(F32 (x / 2), F32 (y / 2)),
            (F32 (x / 2), F32 (- (y / 2))),
            (F32 (- (x / 2)), F32 (- (y / 2))),
            (F32 (- (x / 2)), F32 (y / 2))])) \<and>
   (\<exists>self. rectangle 4 None = Inr self \<and>
      vertices self = [(F32 2, F32 2), (F32 2, F32 (- 2)), (F32 (- 2), F32 (- 2)), (F32 (- 2), F32 2)])"
proof -
  have ok: "\<And>vs. 3 \<le> length vs \<Longrightarrow> \<forall>p\<in>set vs. length p = 2 \<Longrightarrow>
      \<exists>self. Polygon vs = Inr self \<and>
        vertices self = map (\<lambda>p. (np_float32 (p ! 0), np_float32 (p ! Suc 0))) vs"
    by (simp add: Polygon_ok vertices_def zip_map_map_same)
  have a: "y \<noteq> 0 \<longrightarrow>
      (\<exists>self. rectangle x (Some y) = Inr self \<and>
         vertices self =
           [(np_float32 (x / 2), np_float32 (y / 2)),
            (np_float32 (x / 2), np_float32 (- (y / 2))),
            (np_float32 (- (x / 2)), np_float32 (- (y / 2))),
            (np_float32 (- (x / 2)), np_float32 (y / 2))])"
    using ok [of "[[x / 2, y / 2], [x / 2, - (y / 2)], [- (x / 2), - (y / 2)], [- (x / 2), y / 2]]"]
    by (simp add: rectangle_def Let_def)
  have b: "\<exists>self. rectangle 4 None = Inr self \<and>
      vertices self = [(F32 2, F32 2), (F32 2, F32 (- 2)), (F32 (- 2), F32 (- 2)), (F32 (- 2), F32 2)]"
    using ok [of "[[2, 2], [2, - 2], [- 2, - 2], [- 2, 2]]"]
    by (simp add: rectangle_def Let_def np_float32_2 np_float32_m2)
  have c: "y \<noteq> 0 \<and> np_float32 (x / 2) = F32 (x / 2) \<and> np_float32 (y / 2) = F32 (y / 2) \<longrightarrow>
      (\<exists>self. rectangle x (Some y) = Inr self \<and>
         vertices self =
           [(F32 (x / 2), F32 (y / 2)),
            (F32 (x / 2), F32 (- (y / 2))),
            (F32 (- (x / 2)), F32 (- (y / 2))),
            (F32 (- (x / 2)), F32 (y / 2))])"
  proof
    assume h: "y \<noteq> 0 \<and> np_float32 (x / 2) = F32 (x / 2) \<and> np_float32 (y / 2) = F32 (y / 2)"
    then have "np_float32 (- (x / 2)) = F32 (- (x / 2))" "np_float32 (- (y / 2)) = F32 (- (y / 2))"
      by (simp_all add: np_float32_minus)
    with h a show "\<exists>self. rectangle x (Some y) = Inr self \<and>
         vertices self =
           [(F32 (x / 2), F32 (y / 2)),
            (F32 (x / 2), F32 (- (y / 2))),
            (F32 (- (x / 2)), F32 (- (y / 2))),
            (F32 (- (x / 2)), F32 (y / 2))]"
      by simp
  qed
  from a c b show ?thesis by blast
qed

theorem rectangle_vertices_float32_witness:
  "(2::real) \<noteq> 0 \<and> np_float32 (4 / 2) = F32 (4 / 2) \<and> np_float32 (2 / 2) = F32 (2 / 2) \<and>
   (\<exists>self. rectangle 4 (Some 2) = Inr self \<and>
      vertices self = [(F32 2, F32 1), (F32 2, F32 (- 1)), (F32 (- 2), F32 (- 1)), (F32 (- 2), F32 1)])"
  using rectangle_vertices_float32 [of 2 4] by (simp add: np_float32_1 np_float32_2)

text \<open>
  Claim C4 as stated, for every \<open>x\<close> and \<open>y\<close>, fails at \<open>y = 0\<close>, where the code takes
  \<open>x\<close> for \<open>y\<close>, and at \<open>x = y = 2\<^sup>2\<^sup>5 + 2\<close>, where \<open>x/2\<close> is not a 32-bit float.
\<close>

theorem rectangle_vertices_counterexample:
  "map_sum id vertices (rectangle 4 (Some 0)) =
     Inr [(F32 2, F32 2), (F32 2, F32 (- 2)), (F32 (- 2), F32 (- 2)), (F32 (- 2), F32 2)] \<and>
   map_sum id vertices (rectangle 4 (Some 0)) \<noteq>
     Inr [(F32 (4 / 2), F32 (0 / 2)), (F32 (4 / 2), F32 (- (0 / 2))),
          (F32 (- (4 / 2)), F32 (- (0 / 2))), (F32 (- (4 / 2)), F32 (0 / 2))] \<and>
   map_sum id vertices (rectangle 33554434 (Some 33554434)) =
     Inr [(F32 16777216, F32 16777216), (F32 16777216, F32 (- 16777216)),
          (F32 (- 16777216), F32 (- 16777216)), (F32 (- 16777216), F32 16777216)] \<and>
   map_sum id vertices (rectangle 33554434 (Some 33554434)) \<noteq>
     Inr [(F32 (33554434 / 2), F32 (33554434 / 2)), (F32 (33554434 / 2), F32 (- (33554434 / 2))),
          (F32 (- (33554434 / 2)), F32 (- (33554434 / 2))), (F32 (- (33554434 / 2)), F32 (33554434 / 2))]"
  by (simp add: vertices_rectangle np_float32_2 np_float32_m2 np_float32_16777217 np_float32_m16777217)

subsection \<open>Squares\<close>



subsection \<open>Regular polygons\<close>

lemma length_regular_polygon_points:
  "length (regular_polygon_points fa num_sides radius angle) = nat num_sides"
  by (simp add: regular_polygon_points_def regular_polygon_angles_def)

lemma regular_polygon_points_2d:
  "\<forall>p\<in>set (regular_polygon_points fa num_sides radius angle). length p = 2"
  by (auto simp: regular_polygon_points_def)

lemma nth_regular_polygon_angles:
  assumes "k < nat num_sides"
  shows "regular_polygon_angles fa num_sides angle ! k =
           f_add fa angle (f_div fa (f_mul fa (of_int (2 * int k)) (f_pi fa)) (of_int num_sides))"
  using assms by (simp add: regular_polygon_angles_def)

lemma nth_regular_polygon_points:
  assumes "k < nat num_sides"
  shows "regular_polygon_points fa num_sides radius angle ! k =
           [f_mul fa radius (f_sin fa (regular_polygon_angles fa num_sides angle ! k)),
            f_mul fa radius (f_cos fa (regular_polygon_angles fa num_sides angle ! k))]"
  using assms by (simp add: regular_polygon_points_def regular_polygon_angles_def)

lemma vertices_regular_polygon:
  assumes "3 \<le> num_sides"
  shows "regular_polygon fa num_sides radius angle =
           Inr \<lparr>self_x = map (\<lambda>p. np_float32 (p ! 0)) (regular_polygon_points fa num_sides radius angle),
                self_y = map (\<lambda>p. np_float32 (p ! Suc 0)) (regular_polygon_points fa num_sides radius angle)\<rparr>"
  unfolding regular_polygon_def
  using assms
  by (intro Polygon_ok) (simp_all add: length_regular_polygon_points regular_polygon_points_2d)

lemma regular_polygon_stored:
  assumes "3 \<le> num_sides"
  shows "\<exists>self. regular_polygon fa num_sides radius angle = Inr self \<and>
            length (vertices self) = nat num_sides \<and>
            (\<forall>n<nat num_sides. vertices self ! n =
               (np_float32 (f_mul fa radius (f_sin fa (f_add fa angle
                  (f_div fa (f_mul fa (of_int (2 * int n)) (f_pi fa)) (of_int num_sides))))),
                np_float32 (f_mul fa radius (f_cos fa (f_add fa angle
                  (f_div fa (f_mul fa (of_int (2 * int n)) (f_pi fa)) (of_int num_sides)))))))"
  by (simp add: vertices_regular_polygon [OF assms] vertices_def zip_map_map_same
      length_regular_polygon_points nth_regular_polygon_points nth_regular_polygon_angles)

lemma regular_polygon_first_vertex:
  assumes "3 \<le> num_sides"
  shows "map_sum id (hd \<circ> vertices) (regular_polygon fa num_sides radius angle) =
           Inr (np_float32 (hd (regular_polygon_points fa num_sides radius angle) ! 0),
                np_float32 (hd (regular_polygon_points fa num_sides radius angle) ! 1))"
proof -
  let ?ps = "regular_polygon_points fa num_sides radius angle"
  from assms have pos: "0 < nat num_sides" by simp
  then have ne: "?ps \<noteq> []"
    using length_regular_polygon_points [of fa num_sides radius angle] by auto
  then have "hd (map (\<lambda>p. (np_float32 (p ! 0), np_float32 (p ! Suc 0))) ?ps) =
      (np_float32 (hd ?ps ! 0), np_float32 (hd ?ps ! Suc 0))"
    by (simp add: hd_map)
  then show ?thesis
    by (simp add: vertices_regular_polygon [OF assms] vertices_def zip_map_map_same)
qed

text \<open>
  Claim C8. For \<^verbatim>\<open>num_sides\<close> below 3 the list of points that \<^verbatim>\<open>regular_polygon\<close> builds
  has fewer than three points, and the constructor of \<^verbatim>\<open>Polygon\<close> raises \<^verbatim>\<open>ValueError\<close>
  on it: no polygon is returned, whatever the arithmetic. (For \<^verbatim>\<open>num_sides\<close> not above 0
  the list is empty and the exception is the one of the unpacking.)
\<close>

theorem regular_polygon_too_few_sides:
  assumes "num_sides < 3"
  shows "length (regular_polygon_points fa num_sides radius angle) < 3 \<and>
         (\<exists>m. regular_polygon fa num_sides radius angle = Inl (ValueError m))"
proof -
  from assms have "length (regular_polygon_points fa num_sides radius angle) < 3"
    by (simp add: length_regular_polygon_points)
  then show ?thesis
    by (simp add: regular_polygon_def Polygon_short)
qed

theorem regular_polygon_too_few_sides_witness:
  "(2::int) < 3 \<and> length (regular_polygon_points binary64_rounded 2 1 0) < 3 \<and>
   regular_polygon binary64_rounded 2 1 0 = Inl (ValueError ''A polygon must have at least 3 sides'')"
proof -
  have "regular_polygon_points binary64_rounded 2 1 0 \<noteq> []"
    using length_regular_polygon_points [of binary64_rounded 2 1 0] by auto
  then have "regular_polygon binary64_rounded 2 1 0 =
      Inl (ValueError ''A polygon must have at least 3 sides'')"
    unfolding regular_polygon_def
    by (rule Polygon_short_2d) (simp_all add: length_regular_polygon_points regular_polygon_points_2d)
  with regular_polygon_too_few_sides [of 2 binary64_rounded 1 0] show ?thesis by simp
qed

text \<open>The points in exact arithmetic.\<close>

lemma sin_full_turn_part:
  assumes "3 \<le> num_sides"
  shows "0 < sin (2 * pi / of_int num_sides)"
proof -
  from assms have n: "(3::real) \<le> of_int num_sides" by simp
  then have "0 < 2 * pi / of_int num_sides" by simp
  moreover have "2 * pi / of_int num_sides < pi"
    using n pi_gt_zero by (simp add: field_simps)
  ultimately show ?thesis by (rule sin_gt_zero)
qed

lemma successor_angle:
  assumes "3 \<le> num_sides" "n < nat num_sides"
  shows "\<exists>j::int. angle + 2 * of_nat n * pi / of_int num_sides
            - (angle + 2 * of_nat (Suc n mod nat num_sides) * pi / of_int num_sides)
          = 2 * pi * of_int j - 2 * pi / of_int num_sides"
proof (cases "Suc n < nat num_sides")
  case True
  from assms have nz: "(of_int num_sides :: real) \<noteq> 0" by simp
  from True have "Suc n mod nat num_sides = Suc n" by simp
  with nz have "angle + 2 * of_nat n * pi / of_int num_sides
            - (angle + 2 * of_nat (Suc n mod nat num_sides) * pi / of_int num_sides)
          = 2 * pi * of_int 0 - 2 * pi / of_int num_sides"
    by (simp add: field_simps)
  then show ?thesis by blast
next
  case False
  with assms have eq: "Suc n = nat num_sides" by simp
  then have m: "Suc n mod nat num_sides = 0" by simp
  from eq assms have "num_sides = int (Suc n)" by simp
  then have r: "real n = of_int num_sides - 1" by simp
  from assms have nz: "(of_int num_sides :: real) \<noteq> 0" by simp
  have "angle + 2 * of_nat n * pi / of_int num_sides
            - (angle + 2 * of_nat (Suc n mod nat num_sides) * pi / of_int num_sides)
          = 2 * pi * of_int 1 - 2 * pi / of_int num_sides"
    unfolding m r using nz by (simp add: field_simps)
  then show ?thesis by blast
qed

lemma turn_between:
  fixes a b d r :: real
  assumes "a - b = 2 * pi * of_int j - d"
  shows "r * sin a * (r * cos b) - r * sin b * (r * cos a) = - (r\<^sup>2 * sin d)"
    and "r * sin a * (r * sin b) + r * cos a * (r * cos b) = r\<^sup>2 * cos d"
proof -
  have s: "sin (a - b) = - sin d"
    unfolding assms by (simp add: sin_diff sin_int_2pin cos_int_2pin)
  have c: "cos (a - b) = cos d"
    unfolding assms by (simp add: cos_diff sin_int_2pin cos_int_2pin)
  have "r * sin a * (r * cos b) - r * sin b * (r * cos a) = r\<^sup>2 * sin (a - b)"
    by (simp add: sin_diff power2_eq_square algebra_simps)
  with s show "r * sin a * (r * cos b) - r * sin b * (r * cos a) = - (r\<^sup>2 * sin d)"
    by simp
  have "r * sin a * (r * sin b) + r * cos a * (r * cos b) = r\<^sup>2 * cos (a - b)"
    by (simp add: cos_diff power2_eq_square algebra_simps)
  with c show "r * sin a * (r * sin b) + r * cos a * (r * cos b) = r\<^sup>2 * cos d"
    by simp
qed

lemma on_circle:
  fixes a r :: real
  shows "(r * sin a)\<^sup>2 + (r * cos a)\<^sup>2 = r\<^sup>2"
proof -
  have "(r * sin a)\<^sup>2 + (r * cos a)\<^sup>2 = r\<^sup>2 * ((sin a)\<^sup>2 + (cos a)\<^sup>2)"
    by (simp only: power_mult_distrib distrib_left)
  also have "\<dots> = r\<^sup>2" by simp
  finally show ?thesis .
qed

lemma nth_exact_points:
  assumes "k < nat num_sides"
  shows "regular_polygon_points exact_arith num_sides radius angle ! k =
           [radius * sin (angle + 2 * of_nat k * pi / of_int num_sides),
            radius * cos (angle + 2 * of_nat k * pi / of_int num_sides)]"
  by (simp add: nth_regular_polygon_points [OF assms] nth_regular_polygon_angles [OF assms]
      exact_arith_def)

lemma regular_polygon_geometry:
  assumes "3 \<le> num_sides" "n < nat num_sides"
  shows "let p = regular_polygon_points exact_arith num_sides radius angle ! n;
             q = regular_polygon_points exact_arith num_sides radius angle ! (Suc n mod nat num_sides)
         in (p ! 0)\<^sup>2 + (p ! 1)\<^sup>2 = radius\<^sup>2 \<and>
            p ! 0 * q ! 0 + p ! 1 * q ! 1 = radius\<^sup>2 * cos (2 * pi / of_int num_sides) \<and>
            p ! 0 * q ! 1 - q ! 0 * p ! 1 = - (radius\<^sup>2 * sin (2 * pi / of_int num_sides))"
proof -
  from assms have m: "Suc n mod nat num_sides < nat num_sides" by simp
  from successor_angle [OF assms, of angle] obtain j :: int where
    j: "angle + 2 * of_nat n * pi / of_int num_sides
            - (angle + 2 * of_nat (Suc n mod nat num_sides) * pi / of_int num_sides)
          = 2 * pi * of_int j - 2 * pi / of_int num_sides" ..
  show ?thesis
    unfolding Let_def nth_exact_points [OF assms(2)] nth_exact_points [OF m]
    using turn_between [OF j, of radius] on_circle [of radius]
    by simp
qed

text \<open>Rounding to binary64, and the first two points of \<^verbatim>\<open>regular_polygon(4, 1, 0)\<close>.\<close>

lemma f64_exponent_eqI:
  assumes "- 1022 \<le> e" "2 powr of_int e \<le> \<bar>v\<bar>" "\<bar>v\<bar> < 2 powr of_int (e + 1)"
  shows "f64_exponent v = e"
proof -
  have "(0::real) < 2 powr of_int e" by simp
  with assms(2) have "0 < \<bar>v\<bar>" by linarith
  then have "\<lfloor>log 2 \<bar>v\<bar>\<rfloor> = e"
    using assms(2,3) by (simp add: floor_log_eq_powr_iff)
  with assms(1) show ?thesis by (simp add: f64_exponent_def)
qed

lemma py_float_exact:
  assumes e: "- 1022 \<le> e" "2 powr of_int e \<le> \<bar>v\<bar>" "\<bar>v\<bar> < 2 powr of_int (e + 1)"
    and m: "v = of_int m * 2 powr of_int (e - 52)"
  shows "py_float v = v"
proof -
  have u: "f64_ulp v = 2 powr of_int (e - 52)"
    by (simp only: f64_ulp_def f64_exponent_eqI [OF e])
  have upos: "(0::real) < 2 powr of_int (e - 52)" by simp
  have "v / f64_ulp v = of_int m"
    unfolding u using m upos by simp
  then have "round_half_even (v / f64_ulp v) = m"
    by (simp only: round_half_even_of_int)
  then have "of_int (round_half_even (v / f64_ulp v)) * f64_ulp v = v"
    using m u by simp
  then show ?thesis by (simp add: py_float_def)
qed

lemma py_float_0: "py_float 0 = 0"
  by (simp add: py_float_def)

lemma py_float_1: "py_float 1 = 1"
  by (rule py_float_exact [where e = 0 and m = "2 ^ 52"]) (simp_all add: powr_minus_divide)

lemma py_float_16777217: "py_float 16777217 = 16777217"
  by (rule py_float_exact [where e = 24 and m = "16777217 * 2 ^ 28"]) (simp_all add: powr_minus_divide)

lemma round_half_even_ge:
  assumes "of_int k \<le> r"
  shows "k \<le> round_half_even r"
proof -
  from assms have "k \<le> \<lfloor>r\<rfloor>" by (simp add: le_floor_iff)
  then show ?thesis by (simp add: round_half_even_def Let_def)
qed

lemma round_half_even_le:
  assumes "r \<le> of_int k"
  shows "round_half_even r \<le> k"
proof (cases "r = of_int \<lfloor>r\<rfloor>")
  case True
  then have "round_half_even r = \<lfloor>r\<rfloor>"
    by (metis round_half_even_of_int)
  moreover from assms have "\<lfloor>r\<rfloor> \<le> k" by (simp add: floor_le_iff)
  ultimately show ?thesis by simp
next
  case False
  then have "of_int \<lfloor>r\<rfloor> < r" using of_int_floor_le [of r] by linarith
  with assms have "real_of_int \<lfloor>r\<rfloor> < of_int k" by linarith
  then have "\<lfloor>r\<rfloor> + 1 \<le> k" by simp
  then show ?thesis by (simp add: round_half_even_def Let_def)
qed

lemma binade_scale:
  "(2::real) powr of_int e = 2 ^ 52 * 2 powr of_int (e - 52)"
  "(2::real) powr of_int (e + 1) = 2 ^ 53 * 2 powr of_int (e - 52)"
proof -
  have "(2::real) powr (of_int (e - 52) + 52) = 2 powr of_int (e - 52) * 2 powr (52::real)"
    by (rule powr_add)
  then show "(2::real) powr of_int e = 2 ^ 52 * 2 powr of_int (e - 52)"
    by (simp add: mult.commute)
  have "(2::real) powr (of_int (e - 52) + 53) = 2 powr of_int (e - 52) * 2 powr (53::real)"
    by (rule powr_add)
  moreover have "real_of_int (e - 52) + 53 = of_int (e + 1)" by simp
  ultimately show "(2::real) powr of_int (e + 1) = 2 ^ 53 * 2 powr of_int (e - 52)"
    by (simp add: mult.commute add.commute)
qed

lemma py_float_binade:
  assumes e: "- 1022 \<le> e" and lo: "2 powr of_int e \<le> x" and hi: "x \<le> 2 powr of_int (e + 1)"
  shows "2 powr of_int e \<le> py_float x \<and> py_float x \<le> 2 powr of_int (e + 1)"
proof (cases "x = 2 powr of_int (e + 1)")
  case True
  have "py_float x = x"
  proof (rule py_float_exact [where e = "e + 1" and m = "2 ^ 52"])
    show "- 1022 \<le> e + 1" using e by simp
    show "2 powr of_int (e + 1) \<le> \<bar>x\<bar>" using True by simp
    show "\<bar>x\<bar> < 2 powr of_int (e + 1 + 1)" using True by simp
    show "x = of_int (2 ^ 52) * 2 powr of_int (e + 1 - 52)"
      using binade_scale(1) [of "e + 1"] True by simp
  qed
  with lo hi show ?thesis by simp
next
  case False
  let ?u = "2 powr of_int (e - 52) :: real"
  have upos: "0 < ?u" by simp
  have xpos: "0 < x" using lo by (smt (verit) powr_gt_zero)
  from False hi have lt: "x < 2 powr of_int (e + 1)" by simp
  have ex: "f64_exponent x = e"
    using e lo lt xpos by (intro f64_exponent_eqI) simp_all
  have u: "f64_ulp x = ?u" by (simp add: f64_ulp_def ex)
  have "2 ^ 52 * ?u \<le> x" using lo binade_scale(1) [of e] by simp
  then have "2 ^ 52 \<le> x / ?u" using upos by (simp add: pos_le_divide_eq)
  then have "real_of_int (2 ^ 52) \<le> x / ?u" by simp
  then have a: "2 ^ 52 \<le> round_half_even (x / ?u)" by (rule round_half_even_ge)
  have "x \<le> 2 ^ 53 * ?u" using hi binade_scale(2) [of e] by simp
  then have "x / ?u \<le> 2 ^ 53" using upos by (simp add: pos_divide_le_eq)
  then have "x / ?u \<le> real_of_int (2 ^ 53)" by simp
  then have b: "round_half_even (x / ?u) \<le> 2 ^ 53" by (rule round_half_even_le)
  have pf: "py_float x = of_int (round_half_even (x / ?u)) * ?u"
    using xpos by (simp add: py_float_def u)
  from a have "real_of_int (2 ^ 52) \<le> of_int (round_half_even (x / ?u))"
    by (simp only: of_int_le_iff)
  then have "2 ^ 52 * ?u \<le> py_float x"
    unfolding pf using upos by (simp add: mult_right_mono)
  moreover from b have "real_of_int (round_half_even (x / ?u)) \<le> of_int (2 ^ 53)"
    by (simp only: of_int_le_iff)
  then have "py_float x \<le> 2 ^ 53 * ?u"
    unfolding pf using upos by (simp add: mult_right_mono)
  ultimately show ?thesis
    using binade_scale [of e] by simp
qed

lemma pi_ge_three: "3 \<le> pi"
proof -
  have "sin (pi / 6) \<le> pi / 6" by (rule sin_x_le_x) simp
  then show ?thesis by (simp add: sin_30)
qed

lemma sin_ge_half:
  fixes a :: real
  assumes "1 \<le> a" "a \<le> 2"
  shows "1 / 2 \<le> sin a"
proof (cases "a \<le> pi / 2")
  case True
  have "pi / 6 \<le> a" using assms(1) pi_less_4 by linarith
  then have "sin (pi / 6) \<le> sin a"
    using True pi_gt_zero by (intro sin_monotone_2pi_le) linarith+
  then show ?thesis by (simp add: sin_30)
next
  case False
  have "pi / 6 \<le> pi - a" using assms(2) pi_ge_three by linarith
  moreover have "pi - a \<le> pi / 2" using False by linarith
  ultimately have "sin (pi / 6) \<le> sin (pi - a)"
    using pi_gt_zero by (intro sin_monotone_2pi_le) linarith+
  then show ?thesis by (simp add: sin_30)
qed

lemma binary64_first_angle:
  "regular_polygon_angles (binary64_arith s c) 4 0 ! 0 = 0"
  using nth_regular_polygon_angles [of 0 4 "binary64_arith s c" 0]
  by (simp add: binary64_arith_def py_float_0)

lemma binary64_first_point:
  assumes "s 0 = 0" "c 0 = 1"
  shows "regular_polygon_points (binary64_arith s c) 4 1 0 ! 0 = [0, 1]"
  using nth_regular_polygon_points [of 0 4 "binary64_arith s c" 1 0] assms
  by (simp add: binary64_first_angle) (simp add: binary64_arith_def py_float_0 py_float_1)

lemma binary64_second_angle:
  "1 \<le> regular_polygon_angles (binary64_arith s c) 4 0 ! 1 \<and>
   regular_polygon_angles (binary64_arith s c) 4 0 ! 1 \<le> 2"
proof -
  have P: "2 \<le> py_float pi \<and> py_float pi \<le> 4"
    using py_float_binade [of 1 pi] pi_ge_two pi_less_4 by simp
  then have Q: "4 \<le> py_float (2 * py_float pi) \<and> py_float (2 * py_float pi) \<le> 8"
    using py_float_binade [of 2 "2 * py_float pi"] by simp
  then have R: "1 \<le> py_float (py_float (2 * py_float pi) / 4) \<and>
      py_float (py_float (2 * py_float pi) / 4) \<le> 2"
    using py_float_binade [of 0 "py_float (2 * py_float pi) / 4"] by simp
  then have S: "1 \<le> py_float (0 + py_float (py_float (2 * py_float pi) / 4)) \<and>
      py_float (0 + py_float (py_float (2 * py_float pi) / 4)) \<le> 2"
    using py_float_binade [of 0 "py_float (py_float (2 * py_float pi) / 4)"] by simp
  have "regular_polygon_angles (binary64_arith s c) 4 0 ! 1 =
      py_float (0 + py_float (py_float (2 * py_float pi) / 4))"
    using nth_regular_polygon_angles [of 1 4 "binary64_arith s c" 0]
    by (simp add: binary64_arith_def)
  with S show ?thesis by simp
qed

lemma binary64_second_point:
  "1 / 2 \<le> regular_polygon_points binary64_rounded 4 1 0 ! 1 ! 0 \<and>
   regular_polygon_points binary64_rounded 4 1 0 ! 1 ! 0 \<le> 1"
proof -
  let ?a = "regular_polygon_angles binary64_rounded 4 0 ! 1"
  have a: "1 \<le> ?a \<and> ?a \<le> 2"
    unfolding binary64_rounded_def by (rule binary64_second_angle)
  then have "1 / 2 \<le> sin ?a" using sin_ge_half [of ?a] by blast
  then have s: "1 / 2 \<le> py_float (sin ?a) \<and> py_float (sin ?a) \<le> 1"
    using py_float_binade [of "- 1" "sin ?a"] by (simp add: powr_minus_divide)
  then have t: "1 / 2 \<le> py_float (1 * py_float (sin ?a)) \<and> py_float (1 * py_float (sin ?a)) \<le> 1"
    using py_float_binade [of "- 1" "py_float (sin ?a)"] by (simp add: powr_minus_divide)
  have "regular_polygon_points binary64_rounded 4 1 0 ! 1 ! 0 = py_float (1 * py_float (sin ?a))"
    using nth_regular_polygon_points [of 1 4 binary64_rounded 1 0]
    by (simp add: binary64_rounded_def binary64_arith_def)
  with t show ?thesis by simp
qed

lemma hd_regular_polygon_points:
  assumes "3 \<le> num_sides"
  shows "hd (regular_polygon_points fa num_sides radius angle) =
           regular_polygon_points fa num_sides radius angle ! 0"
proof -
  from assms have "0 < nat num_sides" by simp
  then have "regular_polygon_points fa num_sides radius angle \<noteq> []"
    using length_regular_polygon_points [of fa num_sides radius angle] by auto
  then show ?thesis by (rule hd_conv_nth)
qed

lemma binary64_first_vertex:
  assumes "s 0 = 0" "c 0 = 1"
  shows "map_sum id (hd \<circ> vertices) (regular_polygon (binary64_arith s c) 4 1 0) =
           Inr (F32 0, F32 1)"
  by (simp add: regular_polygon_first_vertex hd_regular_polygon_points
      binary64_first_point [of s c, OF assms] np_float32_0 np_float32_1)

lemma binary64_large_radius_point:
  "regular_polygon_points binary64_rounded 3 16777217 0 ! 0 = [0, 16777217]"
proof -
  have "regular_polygon_angles binary64_rounded 3 0 ! 0 = 0"
    using nth_regular_polygon_angles [of 0 3 binary64_rounded 0]
    by (simp add: binary64_rounded_def binary64_arith_def py_float_0)
  then show ?thesis
    using nth_regular_polygon_points [of 0 3 binary64_rounded 16777217 0]
    by (simp add: binary64_rounded_def binary64_arith_def py_float_0 py_float_1 py_float_16777217)
qed

text \<open>
  Claim C5, as the code has it. For \<^verbatim>\<open>num_sides\<close> at least 3 and any floating-point
  arithmetic the polygon has \<^verbatim>\<open>num_sides\<close> vertices, vertex \<open>n\<close> being
  \<open>(radius * sin a\<^sub>n, radius * cos a\<^sub>n)\<close> with \<open>a\<^sub>n = angle + 2 * n * pi / num_sides\<close> as that
  arithmetic evaluates them, each coordinate then rounded to a 32-bit float.
  In exact arithmetic these points lie on the circle of the given radius about the
  origin, and from each point \<open>p\<close> to the next one \<open>q\<close> (from the last to the first) the
  turn about the origin is the same: the scalar product is
  \<open>radius\<^sup>2 * cos (2 * pi / num_sides)\<close> and the cross product \<open>p\<^sub>x * q\<^sub>y - q\<^sub>x * p\<^sub>y\<close> is
  \<open>- radius\<^sup>2 * sin (2 * pi / num_sides)\<close>, which is negative for a radius other than
  zero. With the \<open>x\<close> axis to the right and the \<open>y\<close> axis upwards a negative cross
  product is a clockwise turn. In binary64 arithmetic, with a sine and a cosine that give
  \<open>sin 0 = 0\<close> and \<open>cos 0 = 1\<close>, the first vertex of \<^verbatim>\<open>regular_polygon(4, 1, 0)\<close> is
  \<open>(0, 1)\<close>.
\<close>

theorem regular_polygon_vertices_float32:
  assumes "3 \<le> num_sides"
  shows "(\<exists>self. regular_polygon fa num_sides radius angle = Inr self \<and>
            length (vertices self) = nat num_sides \<and>
            (\<forall>n<nat num_sides. vertices self ! n =
               (np_float32 (f_mul fa radius (f_sin fa (f_add fa angle
                  (f_div fa (f_mul fa (of_int (2 * int n)) (f_pi fa)) (of_int num_sides))))),
                np_float32 (f_mul fa radius (f_cos fa (f_add fa angle
                  (f_div fa (f_mul fa (of_int (2 * int n)) (f_pi fa)) (of_int num_sides)))))))) \<and>
         (\<forall>n<nat num_sides.
            let p = regular_polygon_points exact_arith num_sides radius angle ! n;
                q = regular_polygon_points exact_arith num_sides radius angle ! (Suc n mod nat num_sides)
            in (p ! 0)\<^sup>2 + (p ! 1)\<^sup>2 = radius\<^sup>2 \<and>
               p ! 0 * q ! 0 + p ! 1 * q ! 1 = radius\<^sup>2 * cos (2 * pi / of_int num_sides) \<and>
               p ! 0 * q ! 1 - q ! 0 * p ! 1 = - (radius\<^sup>2 * sin (2 * pi / of_int num_sides))) \<and>
         0 < sin (2 * pi / of_int num_sides) \<and>
         (s 0 = 0 \<and> c 0 = 1 \<longrightarrow>
            map_sum id (hd \<circ> vertices) (regular_polygon (binary64_arith s c) 4 1 0) =
              Inr (F32 0, F32 1))"
  using regular_polygon_stored [OF assms, of fa radius angle]
    regular_polygon_geometry [OF assms, of _ radius angle]
    sin_full_turn_part [OF assms]
    binary64_first_vertex [of s c]
  by blast

theorem regular_polygon_vertices_float32_witness:
  "(3::int) \<le> 4 \<and> 1 < nat 4 \<and> py_float (sin 0) = 0 \<and> py_float (cos 0) = 1 \<and>
   (\<exists>self. regular_polygon binary64_rounded 4 1 0 = Inr self \<and> length (vertices self) = 4) \<and>
   0 < sin (2 * pi / of_int 4) \<and>
   map_sum id (hd \<circ> vertices) (regular_polygon binary64_rounded 4 1 0) = Inr (F32 0, F32 1)"
  using regular_polygon_vertices_float32
    [of 4 binary64_rounded 1 0 "\<lambda>a. py_float (sin a)" "\<lambda>a. py_float (cos a)"]
  by (auto simp: binary64_rounded_def py_float_0 py_float_1)

text \<open>
  Claim C5 as stated fails twice, in binary64 arithmetic. The vertices do not proceed
  counter-clockwise: in \<^verbatim>\<open>regular_polygon(4, 1, 0)\<close> the first point is \<open>(0, 1)\<close>, the
  second has a positive \<open>x\<close>, and the cross product of the two is negative. And a vertex
  is stored as 32-bit floats: the first vertex of \<^verbatim>\<open>regular_polygon(3, 16777217, 0)\<close> is
  \<open>(0, 16777216)\<close>, not \<open>(radius * sin 0, radius * cos 0)\<close>.
\<close>

theorem regular_polygon_counterexample:
  "regular_polygon_points binary64_rounded 4 1 0 ! 0 = [0, 1] \<and>
   0 < regular_polygon_points binary64_rounded 4 1 0 ! 1 ! 0 \<and>
   regular_polygon_points binary64_rounded 4 1 0 ! 0 ! 0 * regular_polygon_points binary64_rounded 4 1 0 ! 1 ! 1
     - regular_polygon_points binary64_rounded 4 1 0 ! 1 ! 0 * regular_polygon_points binary64_rounded 4 1 0 ! 0 ! 1 < 0 \<and>
   map_sum id (hd \<circ> vertices) (regular_polygon binary64_rounded 3 16777217 0) =
     Inr (F32 0, F32 16777216) \<and>
   map_sum id (hd \<circ> vertices) (regular_polygon binary64_rounded 3 16777217 0) \<noteq>
     Inr (F32 (16777217 * sin 0), F32 (16777217 * cos 0))"
proof -
  have p0: "regular_polygon_points binary64_rounded 4 1 0 ! 0 = [0, 1]"
    unfolding binary64_rounded_def
    by (rule binary64_first_point) (simp_all add: py_float_0 py_float_1)
  have p1: "0 < regular_polygon_points binary64_rounded 4 1 0 ! 1 ! 0"
    using binary64_second_point by linarith
  have v: "map_sum id (hd \<circ> vertices) (regular_polygon binary64_rounded 3 16777217 0) =
      Inr (F32 0, F32 16777216)"
    by (simp add: regular_polygon_first_vertex hd_regular_polygon_points
        binary64_large_radius_point np_float32_0 np_float32_16777217)
  show ?thesis unfolding v p0 using p1 by simp
qed

end
